theory Spec2Isabelle
  imports Main "HOL-Library.Word"
begin

section \<open>The FFI demo harness of slang: \<open>src/ffi/slang.c\<close> and \<open>src/ffi/slang.h\<close>\<close>

text \<open>
  The repository's C part is one function, \<open>main\<close>, which wraps its first argument
  as a \<open>SlangString\<close>, calls the external \<open>SlangParseLang\<close> and prints the result.
  The embedding keeps what the claims depend on: pointers and the bytes they refer to
  (so that "no copy" and "not released" can be stated), the two structs of the header,
  the two \<open>printf\<close> calls with their format strings, and every way the C code can
  go wrong (a null or unterminated string handed to \<open>strlen\<close> or \<open>%s\<close>).

  Platform assumptions, fixed once: bytes are 8 bits, \<open>size_t\<close> and \<open>ptrdiff_t\<close>
  are 64 bits wide (LP64), \<open>signed char\<close> is 8 bits in two's complement.
\<close>

subsection \<open>Memory, pointers and C strings\<close>

text \<open>
  Memory is a finite collection of allocated blocks, each a sequence of bytes; a pointer
  is null or names a block and a byte offset into it. A block that is not in the map is
  not allocated.
\<close>

type_synonym block = nat

datatype ptr = NULL | Ptr block nat

type_synonym memory = "block \<rightharpoonup> char list"

text \<open>Undefined behaviour of the C program, made a value.\<close>

datatype fault = NullDeref | BadRead | BadFormat

abbreviation NUL :: char where "NUL \<equiv> CHR 0x00"
abbreviation newline :: char where "newline \<equiv> CHR 0x0A"
abbreviation quote :: char where "quote \<equiv> CHR 0x27"

text \<open>
  The bytes of a block from some position up to, and without, the first terminator.
  Running off the end of the block before a terminator is found is an out-of-bounds read.
\<close>

fun until_nul :: "char list \<Rightarrow> string option" where
  "until_nul [] = None"
| "until_nul (c # cs) = (if c = NUL then Some [] else map_option ((#) c) (until_nul cs))"

fun count_to_nul :: "char list \<Rightarrow> nat option" where
  "count_to_nul [] = None"
| "count_to_nul (c # cs) = (if c = NUL then Some 0 else map_option Suc (count_to_nul cs))"

text \<open>The bytes a \<open>char *\<close> denotes as a C string (what \<open>%s\<close> prints).\<close>

definition c_str :: "memory \<Rightarrow> ptr \<Rightarrow> fault + string" where
  "c_str m q =
     (case q of
        NULL \<Rightarrow> Inl NullDeref
      | Ptr b off \<Rightarrow>
          (case m b of
             None \<Rightarrow> Inl BadRead
           | Some bs \<Rightarrow>
               (case until_nul (drop off bs) of
                  None \<Rightarrow> Inl BadRead
                | Some s \<Rightarrow> Inr s)))"

text \<open>
  \<open>size_t strlen(const char *)\<close>: the number of bytes before the terminator, as a
  64-bit unsigned value.
\<close>

definition strlen :: "memory \<Rightarrow> ptr \<Rightarrow> fault + 64 word" where
  "strlen m q =
     (case q of
        NULL \<Rightarrow> Inl NullDeref
      | Ptr b off \<Rightarrow>
          (case m b of
             None \<Rightarrow> Inl BadRead
           | Some bs \<Rightarrow>
               (case count_to_nul (drop off bs) of
                  None \<Rightarrow> Inl BadRead
                | Some k \<Rightarrow> Inr (word_of_nat k))))"

subsection \<open>The boundary types of \<open>slang.h\<close>\<close>

text \<open>
  \<open>typedef signed char SlangInt8;\<close> is an 8-bit word read by \<open>sint\<close>.
  \<open>SlangString\<close> is \<open>{const char *p; ptrdiff_t n;}\<close>: the fields are named
  \<open>str_p\<close> and \<open>str_n\<close> here, \<open>str_n\<close> a 64-bit word read by \<open>sint\<close>.
  \<open>SlangParseLangResult\<close> is \<open>{SlangInt8 errcode; char *tabstr;}\<close>.
\<close>

type_synonym SlangInt8 = "8 word"

record SlangString =
  str_p :: ptr
  str_n :: "64 word"

record SlangParseLangResult =
  errcode :: SlangInt8
  tabstr :: ptr

subsection \<open>The external function \<open>SlangParseLang\<close>\<close>

text \<open>
  Modelled from the spec: \<open>SlangParseLang\<close> is declared \<open>extern\<close> in \<open>slang.h\<close>
  and its body is not part of the C sources, so it is a parameter of \<open>main\<close>. What is
  fixed about it comes from the header and the spec: it receives the view by value
  through a \<open>const char *\<close> ("callee only reads, no mutation permitted"), it returns,
  it writes nothing to standard output, and it may hand back a heap string it allocated.
  So a callee is a function from the memory it can read and the view to its result and
  the blocks it allocated; blocks that were already allocated keep their bytes.
\<close>

type_synonym callee = "memory \<Rightarrow> SlangString \<Rightarrow> SlangParseLangResult \<times> memory"

definition after_call :: "memory \<Rightarrow> memory \<Rightarrow> memory" where
  "after_call m fresh = (\<lambda>b. case m b of Some bs \<Rightarrow> Some bs | None \<Rightarrow> fresh b)"

subsection \<open>The observable state of a run\<close>

text \<open>
  \<open>mem\<close> is the memory, \<open>out\<close> the bytes written to standard output so far,
  \<open>calls\<close> the argument of every invocation of \<open>SlangParseLang\<close> so far, oldest
  first. A run ends by returning from \<open>main\<close> with an exit code, or in undefined
  behaviour; both keep the state reached.
\<close>

record world =
  mem :: memory
  out :: string
  calls :: "SlangString list"

datatype outcome = Exit int world | Fault fault world

definition call :: "callee \<Rightarrow> world \<Rightarrow> SlangString \<Rightarrow> SlangParseLangResult \<times> world" where
  "call f w v =
     (case f (mem w) v of
        (r, fresh) \<Rightarrow> (r, w\<lparr>mem := after_call (mem w) fresh, calls := calls w @ [v]\<rparr>))"

subsection \<open>\<open>printf\<close> with the conversions \<open>main\<close> uses\<close>

text \<open>\<open>%d\<close>: a signed integer in base 10, a minus sign for negative numbers.\<close>

definition digit_char :: "nat \<Rightarrow> char" where
  "digit_char d = ''0123456789'' ! d"

fun dec_nat :: "nat \<Rightarrow> string" where
  "dec_nat k = (if k < 10 then [digit_char k] else dec_nat (k div 10) @ [digit_char (k mod 10)])"

declare dec_nat.simps [simp del]

definition dec_int :: "int \<Rightarrow> string" where
  "dec_int i = (if i < 0 then CHR ''-'' # dec_nat (nat (- i)) else dec_nat (nat i))"

datatype fmt_arg = ArgStr ptr | ArgInt int

text \<open>
  The text a format string produces. \<open>%s\<close> takes a \<open>char *\<close> and copies the C
  string it points to; \<open>%d\<close> takes an \<open>int\<close>. A conversion without a matching
  argument, or any other conversion, is undefined.
\<close>

fun format :: "memory \<Rightarrow> string \<Rightarrow> fmt_arg list \<Rightarrow> fault + string" where
  "format m [] args = Inr []"
| "format m [c] args = (if c = CHR ''%'' then Inl BadFormat else Inr [c])"
| "format m (c # d # fs) args =
     (if c \<noteq> CHR ''%'' then map_sum id ((#) c) (format m (d # fs) args)
      else if d = CHR ''s'' then
        (case args of
           ArgStr q # rest \<Rightarrow>
             (case c_str m q of
                Inl f \<Rightarrow> Inl f
              | Inr s \<Rightarrow> map_sum id ((@) s) (format m fs rest))
         | _ \<Rightarrow> Inl BadFormat)
      else if d = CHR ''d'' then
        (case args of
           ArgInt i # rest \<Rightarrow> map_sum id ((@) (dec_int i)) (format m fs rest)
         | _ \<Rightarrow> Inl BadFormat)
      else Inl BadFormat)"

definition printf :: "world \<Rightarrow> string \<Rightarrow> fmt_arg list \<Rightarrow> fault + world" where
  "printf w fmt args =
     (case format (mem w) fmt args of
        Inl f \<Rightarrow> Inl f
      | Inr s \<Rightarrow> Inr (w\<lparr>out := out w @ s\<rparr>))"

subsection \<open>\<open>main\<close>\<close>

text \<open>
  \<open>argv\<close> is the array \<open>main\<close> receives; reading it past its end is a fault. The two
  format strings are those of lines 8 and 17 of \<open>slang.c\<close>. The initialiser
  \<open>{argv[1], langCodeLen}\<close> converts the \<open>size_t\<close> to \<open>ptrdiff_t\<close>: the same 64
  bits, read as a signed number from then on. \<open>%d\<close> receives the \<open>signed char\<close>
  promoted to \<open>int\<close>, that is, its signed value. The result of \<open>printf\<close> is not
  used by \<open>main\<close>.
\<close>

definition argv_at :: "ptr list \<Rightarrow> nat \<Rightarrow> fault + ptr" where
  "argv_at argv i = (if i < length argv then Inr (argv ! i) else Inl BadRead)"

definition usage_fmt :: string where
  "usage_fmt = ''Usage: %s <lang-code>'' @ [newline]"

definition result_fmt :: string where
  "result_fmt = ''SlangParseLang('%s'): code = %d'' @ [newline] @ ''%s'' @ [newline]"

definition main :: "callee \<Rightarrow> world \<Rightarrow> int \<Rightarrow> ptr list \<Rightarrow> outcome" where
  "main SlangParseLang w argc argv =
     (if argc < 2 then
        (case argv_at argv 0 of
           Inl f \<Rightarrow> Fault f w
         | Inr a0 \<Rightarrow>
             (case printf w usage_fmt [ArgStr a0] of
                Inl f \<Rightarrow> Fault f w
              | Inr w1 \<Rightarrow> Exit 0 w1))
      else
        (case argv_at argv 1 of
           Inl f \<Rightarrow> Fault f w
         | Inr a1 \<Rightarrow>
             (case strlen (mem w) a1 of
                Inl f \<Rightarrow> Fault f w
              | Inr langCodeLen \<Rightarrow>
                  (let langCode = \<lparr>str_p = a1, str_n = langCodeLen\<rparr>;
                       (result, w1) = call SlangParseLang w langCode
                   in case printf w1 result_fmt
                             [ArgStr a1, ArgInt (sint (errcode result)), ArgStr (tabstr result)] of
                        Inl f \<Rightarrow> Fault f w1
                      | Inr w2 \<Rightarrow> Exit 0 w2))))"

text \<open>
  What the C standard promises about the parameters of \<open>main\<close>: \<open>argc\<close> is not
  negative, \<open>argv[0]\<close> to \<open>argv[argc - 1]\<close> point to strings, \<open>argv[argc]\<close> is null.
\<close>

definition is_string :: "memory \<Rightarrow> ptr \<Rightarrow> bool" where
  "is_string m q = (case c_str m q of Inl f \<Rightarrow> False | Inr s \<Rightarrow> True)"

definition wf_args :: "memory \<Rightarrow> int \<Rightarrow> ptr list \<Rightarrow> bool" where
  "wf_args m argc argv =
     (0 \<le> argc \<and> length argv = nat argc + 1 \<and>
      list_all (is_string m) (take (nat argc) argv) \<and> argv ! nat argc = NULL)"

text \<open>The parts of an outcome.\<close>

fun final :: "outcome \<Rightarrow> world" where
  "final (Exit c w) = w"
| "final (Fault f w) = w"

fun exit_code :: "outcome \<Rightarrow> int option" where
  "exit_code (Exit c w) = Some c"
| "exit_code (Fault f w) = None"

fun fault_of :: "outcome \<Rightarrow> fault option" where
  "fault_of (Exit c w) = None"
| "fault_of (Fault f w) = Some f"

subsection \<open>Vocabulary of the claims\<close>

text \<open>
  The first line of the report, without its line end: the text of the format string up
  to the first \<open>\n\<close>, with the argument and the code filled in.
\<close>

abbreviation report_line :: "string \<Rightarrow> int \<Rightarrow> string" where
  "report_line X i \<equiv> ''SlangParseLang('' @ [quote] @ X @ [quote] @ ''): code = '' @ dec_int i"

text \<open>
  A payload is released when its block is no longer allocated. (\<open>main\<close> has no
  statement that deallocates, so no equation of the model removes a block.)
\<close>

definition released :: "world \<Rightarrow> ptr \<Rightarrow> bool" where
  "released w q = (case q of NULL \<Rightarrow> False | Ptr b off \<Rightarrow> mem w b = None)"

text \<open>The lines of an output: the pieces between line ends.\<close>

fun lines_from :: "string \<Rightarrow> string \<Rightarrow> string list" where
  "lines_from cur [] = (if cur = [] then [] else [cur])"
| "lines_from cur (c # cs) =
     (if c = newline then cur # lines_from [] cs else lines_from (cur @ [c]) cs)"

definition lines_of :: "string \<Rightarrow> string list" where
  "lines_of s = lines_from [] s"

text \<open>Reading a digit string back, to say that \<open>dec_nat\<close> writes base 10.\<close>

definition digit_val :: "char \<Rightarrow> nat" where
  "digit_val c = of_char c - 48"

definition val_of_digits :: "string \<Rightarrow> nat" where
  "val_of_digits ds = foldl (\<lambda>a c. 10 * a + digit_val c) 0 ds"

subsection \<open>Sample runs\<close>

text \<open>
  A memory holding the program name, the arguments \<open>en\<close>, the empty string, \<open>extra\<close>
  and the two-byte UTF-8 encoding of one character; and two stand-ins for the callee: one
  that answers \<open>(0, "OK")\<close> to \<open>en\<close> and \<open>(-1, "")\<close> to anything else, in a block
  it allocates, and one that answers with a null payload.
\<close>

definition demo_mem :: memory where
  "demo_mem =
     [0 \<mapsto> ''slang'' @ [NUL], 1 \<mapsto> ''en'' @ [NUL], 3 \<mapsto> [NUL],
      4 \<mapsto> ''extra'' @ [NUL], 5 \<mapsto> [CHR 0xC3, CHR 0xA9, NUL]]"

definition demo_world :: world where
  "demo_world = \<lparr>mem = demo_mem, out = [], calls = []\<rparr>"

definition demo_callee :: callee where
  "demo_callee m v =
     (if c_str m (str_p v) = Inr ''en''
      then (\<lparr>errcode = 0, tabstr = Ptr 2 0\<rparr>, [2 \<mapsto> ''OK'' @ [NUL]])
      else (\<lparr>errcode = - 1, tabstr = Ptr 2 0\<rparr>, [2 \<mapsto> [NUL]]))"

definition null_callee :: callee where
  "null_callee m v = (\<lparr>errcode = - 1, tabstr = NULL\<rparr>, Map.empty)"

section \<open>Properties\<close>

subsection \<open>Strings and \<open>strlen\<close>\<close>

lemma count_to_nul_until_nul: "count_to_nul bs = map_option length (until_nul bs)"
  by (induction bs) (auto simp: option.map_comp comp_def)

lemma strlen_c_str:
  "strlen m q = (case c_str m q of Inl f \<Rightarrow> Inl f | Inr s \<Rightarrow> Inr (word_of_nat (length s)))"
  by (simp add: strlen_def c_str_def count_to_nul_until_nul split: ptr.split option.split)

lemma until_nul_no_nul: "until_nul bs = Some s \<Longrightarrow> NUL \<notin> set s"
  by (induction bs arbitrary: s) (auto split: if_splits)

lemma until_nul_prefix: "until_nul bs = Some s \<Longrightarrow> \<exists>rest. bs = s @ NUL # rest"
  by (induction bs arbitrary: s) (auto split: if_splits)

lemma c_str_no_nul: "c_str m q = Inr s \<Longrightarrow> NUL \<notin> set s"
  by (auto simp: c_str_def split: ptr.splits option.splits dest: until_nul_no_nul)

lemma is_string_c_str: "is_string m q \<Longrightarrow> \<exists>s. c_str m q = Inr s"
  by (simp add: is_string_def split: sum.splits)

text \<open>A call leaves every string that could be read before it as it was.\<close>

lemma c_str_after_call:
  "c_str m q = Inr s \<Longrightarrow> c_str (after_call m fresh) q = Inr s"
  by (auto simp: c_str_def after_call_def split: ptr.splits option.splits)

text \<open>A length below \<open>2 ^ 63\<close> survives the conversion to \<open>ptrdiff_t\<close>.\<close>

lemma sint_strlen: "k < 2 ^ 63 \<Longrightarrow> sint (word_of_nat k :: 64 word) = int k"
proof -
  assume "k < 2 ^ 63"
  then have "int k < 2 ^ 63"
    by (metis of_nat_less_iff of_nat_numeral of_nat_power)
  moreover have "- (2 ^ 63) \<le> int k"
    by (rule order_trans [of _ 0]) simp_all
  ultimately have "signed_take_bit 63 (int k) = int k"
    by (rule signed_take_bit_int_eq_self [rotated])
  then show ?thesis
    by (simp add: signed_of_nat)
qed

subsection \<open>Decimal output and lines\<close>

lemma digit_char_in: "d < 10 \<Longrightarrow> digit_char d \<in> set ''0123456789''"
  unfolding digit_char_def by (rule nth_mem) simp

lemma digit_val_digit_char: "d < 10 \<Longrightarrow> digit_val (digit_char d) = d"
proof -
  assume "d < 10"
  then have "d \<in> {0, 1, 2, 3, 4, 5, 6, 7, 8, 9}" by auto
  then show ?thesis
    by (auto simp: digit_val_def digit_char_def)
qed

lemma val_of_digits_snoc: "val_of_digits (ds @ [c]) = 10 * val_of_digits ds + digit_val c"
  by (simp add: val_of_digits_def)

text \<open>\<open>dec_nat\<close> writes the number in base 10: reading the digits back gives it again.\<close>

lemma val_of_digits_dec_nat: "val_of_digits (dec_nat k) = k"
proof (induction k rule: dec_nat.induct)
  case (1 k)
  show ?case
  proof (cases "k < 10")
    case True
    then show ?thesis
      by (simp add: dec_nat.simps [of k] val_of_digits_def digit_val_digit_char)
  next
    case False
    then show ?thesis
      using 1 by (simp add: dec_nat.simps [of k] val_of_digits_snoc digit_val_digit_char)
  qed
qed

lemma dec_int_reads_back:
  "(if i < 0 then hd (dec_int i) = CHR ''-'' \<and> - int (val_of_digits (tl (dec_int i))) = i
    else int (val_of_digits (dec_int i)) = i)"
  by (simp add: dec_int_def val_of_digits_dec_nat)

lemma dec_nat_no_newline: "newline \<notin> set (dec_nat k)"
proof (induction k rule: dec_nat.induct)
  case (1 k)
  have d: "digit_char j \<noteq> newline" if "j < 10" for j
    using digit_char_in [OF that] by auto
  show ?case
  proof (cases "k < 10")
    case True
    then show ?thesis using d [of k] by (auto simp: dec_nat.simps [of k])
  next
    case False
    then show ?thesis using 1 d [of "k mod 10"] by (auto simp: dec_nat.simps [of k])
  qed
qed

lemma dec_int_no_newline: "newline \<notin> set (dec_int i)"
  by (simp add: dec_int_def dec_nat_no_newline)

lemma report_line_no_newline: "newline \<notin> set X \<Longrightarrow> newline \<notin> set (report_line X i)"
  by (simp add: dec_int_no_newline)

lemma lines_from_line:
  "newline \<notin> set a \<Longrightarrow> lines_from cur (a @ newline # rest) = (cur @ a) # lines_from [] rest"
  by (induction a arbitrary: cur) auto

lemma lines_of_two:
  assumes "newline \<notin> set a" and "newline \<notin> set b"
  shows "lines_of (a @ [newline] @ b @ [newline]) = [a, b]"
proof -
  have "lines_from [] (a @ newline # (b @ [newline])) = a # lines_from [] (b @ [newline])"
    using lines_from_line [OF assms(1), of "[]" "b @ [newline]"] by simp
  moreover have "lines_from [] (b @ [newline]) = [b]"
    using lines_from_line [OF assms(2), of "[]" "[]"] by simp
  ultimately show ?thesis by (simp add: lines_of_def)
qed

subsection \<open>The two format strings\<close>

lemma format_usage:
  "format m usage_fmt [ArgStr q] =
     (case c_str m q of
        Inl f \<Rightarrow> Inl f
      | Inr s \<Rightarrow> Inr (''Usage: '' @ s @ '' <lang-code>'' @ [newline]))"
  by (simp add: usage_fmt_def split: sum.split)

lemma format_result:
  "format m result_fmt [ArgStr q, ArgInt i, ArgStr t] =
     (case c_str m q of
        Inl f \<Rightarrow> Inl f
      | Inr x \<Rightarrow>
          (case c_str m t of
             Inl f \<Rightarrow> Inl f
           | Inr s \<Rightarrow> Inr (report_line x i @ [newline] @ s @ [newline])))"
  by (simp add: result_fmt_def split: sum.split)

subsection \<open>The two paths of \<open>main\<close>\<close>

lemma main_usage_path:
  "argc < 2 \<Longrightarrow>
   main f w argc argv =
     (case argv_at argv 0 of
        Inl e \<Rightarrow> Fault e w
      | Inr a \<Rightarrow>
          (case c_str (mem w) a of
             Inl e \<Rightarrow> Fault e w
           | Inr name \<Rightarrow>
               Exit 0 (w\<lparr>out := out w @ ''Usage: '' @ name @ '' <lang-code>'' @ [newline]\<rparr>)))"
  by (simp add: main_def printf_def format_usage split: sum.split)

lemma main_call_path:
  assumes "\<not> argc < 2" and "argv_at argv 1 = Inr a" and "c_str (mem w) a = Inr X"
    and "f (mem w) \<lparr>str_p = a, str_n = word_of_nat (length X)\<rparr> = (r, fresh)"
  shows "main f w argc argv =
     (case c_str (after_call (mem w) fresh) (tabstr r) of
        Inl e \<Rightarrow>
          Fault e (w\<lparr>mem := after_call (mem w) fresh,
                     calls := calls w @ [\<lparr>str_p = a, str_n = word_of_nat (length X)\<rparr>]\<rparr>)
      | Inr s \<Rightarrow>
          Exit 0 (w\<lparr>mem := after_call (mem w) fresh,
                    calls := calls w @ [\<lparr>str_p = a, str_n = word_of_nat (length X)\<rparr>],
                    out := out w @ report_line X (sint (errcode r)) @ [newline] @ s @ [newline]\<rparr>))"
  using assms
  by (simp add: main_def strlen_c_str call_def printf_def format_result c_str_after_call
      split: sum.split)

lemma wf_args_argv_at:
  "wf_args m argc argv \<Longrightarrow> i \<le> nat argc \<Longrightarrow> argv_at argv i = Inr (argv ! i)"
  by (simp add: wf_args_def argv_at_def)

lemma wf_args_is_string:
  "wf_args m argc argv \<Longrightarrow> i < nat argc \<Longrightarrow> is_string m (argv ! i)"
  by (auto simp: wf_args_def list_all_length)

lemma wf_args_arg1:
  assumes "2 \<le> argc" and "wf_args m argc argv"
  shows "argv_at argv 1 = Inr (argv ! 1)" and "\<exists>X. c_str m (argv ! 1) = Inr X"
  using assms wf_args_argv_at [of m argc argv 1] wf_args_is_string [of m argc argv 1]
  by (auto dest: is_string_c_str)

lemma main_calls_once:
  assumes "2 \<le> argc" and "wf_args (mem w) argc argv" and "c_str (mem w) (argv ! 1) = Inr X"
  shows "calls (final (main f w argc argv)) =
           calls w @ [\<lparr>str_p = argv ! 1, str_n = word_of_nat (length X)\<rparr>]"
proof -
  obtain r fresh where "f (mem w) \<lparr>str_p = argv ! 1, str_n = word_of_nat (length X)\<rparr> = (r, fresh)"
    by (cases "f (mem w) \<lparr>str_p = argv ! 1, str_n = word_of_nat (length X)\<rparr>")
  moreover have "\<not> argc < 2" using assms(1) by simp
  ultimately show ?thesis
    using assms wf_args_arg1(1) [OF assms(1,2)]
    by (simp add: main_call_path split: sum.split)
qed

text \<open>
  With \<open>argc = 0\<close> the standard makes \<open>argv[0]\<close> null, and the usage line has no name
  to print: the \<open>%s\<close> of line 8 reads through a null pointer.
\<close>

lemma main_without_name: "main f w 0 [NULL] = Fault NullDeref w"
  by (simp add: main_usage_path argv_at_def c_str_def)

text \<open>No run of \<open>main\<close> deallocates or overwrites a block.\<close>

lemma main_keeps_blocks:
  "mem w b = Some bs \<Longrightarrow> mem (final (main f w argc argv)) b = Some bs"
  by (auto simp: main_def printf_def call_def after_call_def Let_def
      split: sum.splits prod.splits)

subsection \<open>The sample runs\<close>

lemmas demo_defs = demo_world_def demo_mem_def demo_callee_def c_str_def after_call_def

lemma demo_wf1: "wf_args (mem demo_world) 1 [Ptr 0 0, NULL]"
  by (simp add: wf_args_def is_string_def demo_defs)

lemma demo_wf2: "wf_args (mem demo_world) 2 [Ptr 0 0, Ptr 1 0, NULL]"
  by (simp add: wf_args_def is_string_def demo_defs)

lemma demo_wf2_empty: "wf_args (mem demo_world) 2 [Ptr 0 0, Ptr 3 0, NULL]"
  by (simp add: wf_args_def is_string_def demo_defs)

lemma demo_wf3: "wf_args (mem demo_world) 3 [Ptr 0 0, Ptr 1 0, Ptr 4 0, NULL]"
  by (simp add: wf_args_def is_string_def demo_defs)

lemma demo_arg_en: "c_str (mem demo_world) ([Ptr 0 0, Ptr 1 0, NULL] ! 1) = Inr ''en''"
  by (simp add: demo_defs)

lemma demo_call_en:
  "demo_callee (mem demo_world)
     \<lparr>str_p = [Ptr 0 0, Ptr 1 0, NULL] ! 1, str_n = word_of_nat (length ''en'')\<rparr> =
   (\<lparr>errcode = 0, tabstr = Ptr 2 0\<rparr>, [2 \<mapsto> ''OK'' @ [NUL]])"
  by (simp add: demo_defs)

lemma demo_payload_ok:
  "c_str (after_call (mem demo_world) [2 \<mapsto> ''OK'' @ [NUL]])
     (tabstr \<lparr>errcode = 0, tabstr = Ptr 2 0\<rparr>) = Inr ''OK''"
  by (simp add: demo_defs)

text \<open>\<open>strlen\<close> counts bytes: the two-byte UTF-8 encoding of one character has length 2.\<close>

lemma strlen_two_byte_character: "strlen demo_mem (Ptr 5 0) = Inr 2"
  by (simp add: strlen_def demo_mem_def)

section \<open>The claims\<close>

subsection \<open>The report of a run with one argument\<close>

text \<open>
  Claim C1. A run with exactly one argument \<open>X\<close>, in which the callee returns the code
  \<open>errcode\<close> and a string, prints \<open>SlangParseLang('X'): code = <errcode>\<close> with the
  code as a signed decimal number, then on the next line the returned string, and exits
  with code 0 whatever the code is.
\<close>

theorem C1_single_argument_report:
  assumes "wf_args (mem w) 2 argv"
    and "c_str (mem w) (argv ! 1) = Inr X"
    and "SlangParseLang (mem w) \<lparr>str_p = argv ! 1, str_n = word_of_nat (length X)\<rparr> = (r, fresh)"
    and "c_str (after_call (mem w) fresh) (tabstr r) = Inr s"
  shows "exit_code (main SlangParseLang w 2 argv) = Some 0 \<and>
         out (final (main SlangParseLang w 2 argv)) =
           out w @ report_line X (sint (errcode r)) @ [newline] @ s @ [newline]"
proof -
  have "argv_at argv 1 = Inr (argv ! 1)"
    using assms(1) by (simp add: wf_args_argv_at)
  then show ?thesis
    using assms(2,3,4) by (simp add: main_call_path)
qed

theorem C1_single_argument_report_witness:
  "exit_code (main demo_callee demo_world 2 [Ptr 0 0, Ptr 1 0, NULL]) = Some 0 \<and>
   out (final (main demo_callee demo_world 2 [Ptr 0 0, Ptr 1 0, NULL])) =
     ''SlangParseLang('en'): code = 0'' @ [newline] @ ''OK'' @ [newline]"
  using C1_single_argument_report [where SlangParseLang = demo_callee and w = demo_world
      and argv = "[Ptr 0 0, Ptr 1 0, NULL]", OF demo_wf2 demo_arg_en demo_call_en demo_payload_ok]
  by (simp add: demo_world_def dec_int_def dec_nat.simps digit_char_def)

subsection \<open>The usage line\<close>

text \<open>
  Claim C2 says that every run with \<open>argc < 2\<close> prints the usage line with the name
  the program was invoked under and exits with code 0. The C standard allows
  \<open>argc = 0\<close>, where \<open>argv[0]\<close> is null: line 7 takes the usage branch and line 8
  hands the null pointer to \<open>%s\<close>, so the run ends in a null dereference, with no
  usage line and no exit code.
\<close>

theorem C2_usage_without_name_counterexample:
  "(0::int) < 2 \<and> wf_args (mem demo_world) 0 [NULL] \<and>
   exit_code (main demo_callee demo_world 0 [NULL]) = None \<and>
   fault_of (main demo_callee demo_world 0 [NULL]) = Some NullDeref \<and>
   out (final (main demo_callee demo_world 0 [NULL])) = []"
  by (simp add: main_def argv_at_def printf_def usage_fmt_def c_str_def wf_args_def demo_world_def)

text \<open>
  Claim C2, as amended. A run with \<open>argc < 2\<close> never invokes \<open>SlangParseLang\<close>; and
  when the program name is the only element of the command line (\<open>argc = 1\<close>), it
  prints the usage line with the name \<open>argv[0]\<close> points to and exits with code 0.
\<close>

theorem C2_usage_line:
  assumes "argc < 2"
  shows "calls (final (main SlangParseLang w argc argv)) = calls w \<and>
         (argc = 1 \<and> wf_args (mem w) argc argv \<longrightarrow>
            (\<exists>name. c_str (mem w) (argv ! 0) = Inr name \<and>
               exit_code (main SlangParseLang w argc argv) = Some 0 \<and>
               out (final (main SlangParseLang w argc argv)) =
                 out w @ ''Usage: '' @ name @ '' <lang-code>'' @ [newline]))"
proof -
  have c: "calls (final (main SlangParseLang w argc argv)) = calls w"
    using assms by (simp add: main_usage_path split: sum.split)
  have u: "\<exists>name. c_str (mem w) (argv ! 0) = Inr name \<and>
               exit_code (main SlangParseLang w argc argv) = Some 0 \<and>
               out (final (main SlangParseLang w argc argv)) =
                 out w @ ''Usage: '' @ name @ '' <lang-code>'' @ [newline]"
    if "argc = 1" and wf: "wf_args (mem w) argc argv"
  proof -
    have a: "argv_at argv 0 = Inr (argv ! 0)"
      using wf by (simp add: wf_args_argv_at)
    have "is_string (mem w) (argv ! 0)"
      using wf that(1) by (simp add: wf_args_is_string)
    then obtain name where n: "c_str (mem w) (argv ! 0) = Inr name"
      using is_string_c_str by blast
    show ?thesis
      using assms a n by (simp add: main_usage_path)
  qed
  from c u show ?thesis by blast
qed

theorem C2_usage_line_witness:
  "calls (final (main demo_callee demo_world 1 [Ptr 0 0, NULL])) = [] \<and>
   exit_code (main demo_callee demo_world 1 [Ptr 0 0, NULL]) = Some 0 \<and>
   out (final (main demo_callee demo_world 1 [Ptr 0 0, NULL])) =
     ''Usage: slang <lang-code>'' @ [newline]"
proof -
  have h1: "(1::int) < 2" by simp
  have n: "c_str (mem demo_world) ([Ptr 0 0, NULL] ! 0) = Inr ''slang''"
    by (simp add: demo_defs)
  show ?thesis
    using C2_usage_line [where SlangParseLang = demo_callee and w = demo_world
        and argv = "[Ptr 0 0, NULL]", OF h1] demo_wf1 n
    by (auto simp: demo_world_def)
qed

subsection \<open>The returned payload is not released\<close>

text \<open>
  Claim C3 says that the caller releases a non-null payload exactly once before the
  process exits. \<open>main\<close> calls nothing that deallocates, and \<open>slang.h\<close> declares no
  release function. In the sample run the callee returns the payload \<open>OK\<close> in block 2,
  \<open>main\<close> returns with code 0, and block 2 is still allocated.
\<close>

theorem C3_payload_not_released_counterexample:
  "exit_code (main demo_callee demo_world 2 [Ptr 0 0, Ptr 1 0, NULL]) = Some 0 \<and>
   tabstr (fst (demo_callee demo_mem \<lparr>str_p = Ptr 1 0, str_n = 2\<rparr>)) = Ptr 2 0 \<and>
   \<not> released (final (main demo_callee demo_world 2 [Ptr 0 0, Ptr 1 0, NULL])) (Ptr 2 0)"
  by (simp add: main_def argv_at_def strlen_def c_str_def call_def printf_def result_fmt_def
      after_call_def released_def demo_callee_def demo_world_def demo_mem_def)

text \<open>
  Claim C3, as amended. In every run in which the callee returns a non-null payload that
  can be read, the caller does not release it: when \<open>main\<close> ends, the memory is exactly
  as the callee left it, and the payload is still allocated with its bytes (released zero
  times, so never twice).
\<close>

theorem C3_payload_still_allocated:
  assumes "2 \<le> argc" and "wf_args (mem w) argc argv"
    and "c_str (mem w) (argv ! 1) = Inr X"
    and "SlangParseLang (mem w) \<lparr>str_p = argv ! 1, str_n = word_of_nat (length X)\<rparr> = (r, fresh)"
    and "c_str (after_call (mem w) fresh) (tabstr r) = Inr s"
  shows "mem (final (main SlangParseLang w argc argv)) = after_call (mem w) fresh \<and>
         c_str (mem (final (main SlangParseLang w argc argv))) (tabstr r) = Inr s \<and>
         \<not> released (final (main SlangParseLang w argc argv)) (tabstr r)"
proof -
  have "\<not> argc < 2"
    using assms(1) by simp
  then have m: "mem (final (main SlangParseLang w argc argv)) = after_call (mem w) fresh"
    using wf_args_arg1(1) [OF assms(1,2)] assms(3,4,5) by (simp add: main_call_path)
  have "\<not> released (final (main SlangParseLang w argc argv)) (tabstr r)"
    using assms(5) m by (auto simp: released_def c_str_def split: ptr.splits option.splits)
  with m assms(5) show ?thesis by simp
qed

theorem C3_payload_still_allocated_witness:
  "c_str (mem (final (main demo_callee demo_world 2 [Ptr 0 0, Ptr 1 0, NULL]))) (Ptr 2 0) = Inr ''OK'' \<and>
   \<not> released (final (main demo_callee demo_world 2 [Ptr 0 0, Ptr 1 0, NULL])) (Ptr 2 0)"
proof -
  have h1: "(2::int) \<le> 2" by simp
  have "c_str (mem (final (main demo_callee demo_world 2 [Ptr 0 0, Ptr 1 0, NULL])))
          (tabstr \<lparr>errcode = 0, tabstr = Ptr 2 0\<rparr>) = Inr ''OK'' \<and>
        \<not> released (final (main demo_callee demo_world 2 [Ptr 0 0, Ptr 1 0, NULL]))
          (tabstr \<lparr>errcode = 0, tabstr = Ptr 2 0\<rparr>)"
    using C3_payload_still_allocated [where SlangParseLang = demo_callee and w = demo_world
        and argv = "[Ptr 0 0, Ptr 1 0, NULL]", OF h1 demo_wf2 demo_arg_en demo_call_en demo_payload_ok]
    by (rule conjunct2)
  then show ?thesis
    by simp
qed

subsection \<open>The view built from the argument\<close>

text \<open>
  Claim C4. For an argument \<open>X\<close> of \<open>L\<close> bytes, the \<open>SlangString\<close> handed to the
  callee has its length field equal to \<open>L\<close>, the bytes before the terminator (none of
  them is the terminator), and its pointer is the pointer \<open>argv[1]\<close> itself, so it
  refers to the bytes of \<open>X\<close> where they are. \<open>L\<close> is a length a \<open>ptrdiff_t\<close> can
  hold, as the length of every object on the platform is.
\<close>

theorem C4_view_of_argument:
  assumes "2 \<le> argc" and "wf_args (mem w) argc argv"
    and "c_str (mem w) (argv ! 1) = Inr X" and "length X < 2 ^ 63"
  shows "\<exists>v. calls (final (main SlangParseLang w argc argv)) = calls w @ [v] \<and>
             sint (str_n v) = int (length X) \<and> NUL \<notin> set X \<and>
             str_p v = argv ! 1 \<and> c_str (mem w) (str_p v) = Inr X"
  using main_calls_once [OF assms(1,2,3)] assms(3,4)
  by (simp add: sint_strlen c_str_no_nul)

theorem C4_view_of_argument_witness:
  "\<exists>v. calls (final (main demo_callee demo_world 2 [Ptr 0 0, Ptr 1 0, NULL])) = [v] \<and>
       sint (str_n v) = 2 \<and> str_p v = Ptr 1 0"
proof -
  have h1: "(2::int) \<le> 2" by simp
  have h4: "length ''en'' < 2 ^ 63" by simp
  show ?thesis
    using C4_view_of_argument [where SlangParseLang = demo_callee and w = demo_world
        and argv = "[Ptr 0 0, Ptr 1 0, NULL]", OF h1 demo_wf2 demo_arg_en h4]
    by (auto simp: demo_world_def)
qed

subsection \<open>The second line\<close>

text \<open>
  Claim C5. Whatever the callee returns, what is printed after the line end of the first
  line is the returned string, byte for byte, and a line end; the empty string gives an
  empty line. When neither the argument nor the returned string contains a line end, the
  output has two lines and the second is the returned string.
\<close>

theorem C5_second_line_is_payload:
  assumes "2 \<le> argc" and "wf_args (mem w) argc argv"
    and "c_str (mem w) (argv ! 1) = Inr X"
    and "SlangParseLang (mem w) \<lparr>str_p = argv ! 1, str_n = word_of_nat (length X)\<rparr> = (r, fresh)"
    and "c_str (after_call (mem w) fresh) (tabstr r) = Inr s"
  shows "out (final (main SlangParseLang w argc argv)) =
           out w @ report_line X (sint (errcode r)) @ [newline] @ s @ [newline] \<and>
         (out w = [] \<and> newline \<notin> set X \<and> newline \<notin> set s \<longrightarrow>
            lines_of (out (final (main SlangParseLang w argc argv))) =
              [report_line X (sint (errcode r)), s])"
proof -
  have "\<not> argc < 2" using assms(1) by simp
  then have o: "out (final (main SlangParseLang w argc argv)) =
           out w @ report_line X (sint (errcode r)) @ [newline] @ s @ [newline]"
    using wf_args_arg1(1) [OF assms(1,2)] assms(3,4,5) by (simp add: main_call_path)
  have "lines_of (report_line X (sint (errcode r)) @ [newline] @ s @ [newline]) =
          [report_line X (sint (errcode r)), s]"
    if "newline \<notin> set X" and "newline \<notin> set s"
    using report_line_no_newline [OF that(1)] that(2) by (rule lines_of_two)
  with o show ?thesis by simp
qed

theorem C5_second_line_is_payload_witness:
  "lines_of (out (final (main demo_callee demo_world 2 [Ptr 0 0, Ptr 1 0, NULL]))) =
     [''SlangParseLang('en'): code = 0'', ''OK'']"
proof -
  have h1: "(2::int) \<le> 2" by simp
  have n: "out demo_world = [] \<and> newline \<notin> set ''en'' \<and> newline \<notin> set ''OK''"
    by (simp add: demo_world_def)
  have "out demo_world = [] \<and> newline \<notin> set ''en'' \<and> newline \<notin> set ''OK'' \<longrightarrow>
        lines_of (out (final (main demo_callee demo_world 2 [Ptr 0 0, Ptr 1 0, NULL]))) =
          [report_line ''en'' (sint (errcode \<lparr>errcode = 0, tabstr = Ptr 2 0\<rparr>)), ''OK'']"
    using C5_second_line_is_payload [where SlangParseLang = demo_callee and w = demo_world
        and argv = "[Ptr 0 0, Ptr 1 0, NULL]", OF h1 demo_wf2 demo_arg_en demo_call_en demo_payload_ok]
    by (rule conjunct2)
  then have "lines_of (out (final (main demo_callee demo_world 2 [Ptr 0 0, Ptr 1 0, NULL]))) =
          [report_line ''en'' (sint (errcode \<lparr>errcode = 0, tabstr = Ptr 2 0\<rparr>)), ''OK'']"
    using n by (rule mp)
  then show ?thesis
    by (simp add: dec_int_def dec_nat.simps digit_char_def)
qed

subsection \<open>One call per run\<close>

text \<open>
  Claim C6. In a run with at least one argument, \<open>SlangParseLang\<close> is invoked exactly
  once: the record of calls at the end of the run, however it ends, is the record at the
  start and one more call.
\<close>

theorem C6_callee_invoked_once:
  assumes "2 \<le> argc" and "wf_args (mem w) argc argv"
  shows "\<exists>v. calls (final (main SlangParseLang w argc argv)) = calls w @ [v]"
proof -
  obtain X where "c_str (mem w) (argv ! 1) = Inr X"
    using wf_args_arg1(2) [OF assms] by blast
  then show ?thesis
    using main_calls_once [OF assms] by blast
qed

theorem C6_callee_invoked_once_witness:
  "length (calls (final (main demo_callee demo_world 3 [Ptr 0 0, Ptr 1 0, Ptr 4 0, NULL]))) = 1"
proof -
  have h1: "(2::int) \<le> 3" by simp
  show ?thesis
    using C6_callee_invoked_once [where SlangParseLang = demo_callee, OF h1 demo_wf3]
    by (auto simp: demo_world_def)
qed

subsection \<open>The empty argument\<close>

text \<open>
  Claim C7. When the one argument is the empty string and the callee returns the code
  \<open>-1\<close> and the empty string, the run takes the call path (the callee is invoked, with
  a view of length 0), the whole output is \<open>SlangParseLang(''): code = -1\<close> followed by
  two line ends, and the exit code is 0.
\<close>

theorem C7_empty_argument:
  assumes "wf_args (mem w) 2 argv" and "out w = []"
    and "c_str (mem w) (argv ! 1) = Inr []"
    and "SlangParseLang (mem w) \<lparr>str_p = argv ! 1, str_n = 0\<rparr> = (r, fresh)"
    and "sint (errcode r) = - 1"
    and "c_str (after_call (mem w) fresh) (tabstr r) = Inr []"
  shows "exit_code (main SlangParseLang w 2 argv) = Some 0 \<and>
         out (final (main SlangParseLang w 2 argv)) =
           ''SlangParseLang('' @ [quote, quote] @ ''): code = -1'' @ [newline, newline] \<and>
         calls (final (main SlangParseLang w 2 argv)) = calls w @ [\<lparr>str_p = argv ! 1, str_n = 0\<rparr>]"
proof -
  have "argv_at argv 1 = Inr (argv ! 1)"
    using assms(1) by (simp add: wf_args_argv_at)
  moreover have "SlangParseLang (mem w)
      \<lparr>str_p = argv ! 1, str_n = word_of_nat (length ([] :: string))\<rparr> = (r, fresh)"
    using assms(4) by simp
  moreover have "dec_int (- 1) = ''-1''"
    by (simp add: dec_int_def dec_nat.simps digit_char_def)
  ultimately show ?thesis
    using assms(2,3,5,6) by (simp add: main_call_path)
qed

theorem C7_empty_argument_witness:
  "exit_code (main demo_callee demo_world 2 [Ptr 0 0, Ptr 3 0, NULL]) = Some 0 \<and>
   out (final (main demo_callee demo_world 2 [Ptr 0 0, Ptr 3 0, NULL])) =
     ''SlangParseLang('' @ [quote, quote] @ ''): code = -1'' @ [newline, newline] \<and>
   calls (final (main demo_callee demo_world 2 [Ptr 0 0, Ptr 3 0, NULL])) =
     [\<lparr>str_p = Ptr 3 0, str_n = 0\<rparr>]"
proof -
  have h2: "out demo_world = []" by (simp add: demo_world_def)
  have h3: "c_str (mem demo_world) ([Ptr 0 0, Ptr 3 0, NULL] ! 1) = Inr []"
    by (simp add: demo_defs)
  have h4: "demo_callee (mem demo_world) \<lparr>str_p = [Ptr 0 0, Ptr 3 0, NULL] ! 1, str_n = 0\<rparr> =
      (\<lparr>errcode = - 1, tabstr = Ptr 2 0\<rparr>, [2 \<mapsto> [NUL]])"
    by (simp add: demo_defs)
  have h5: "sint (errcode \<lparr>errcode = - 1, tabstr = Ptr 2 0\<rparr>) = - 1" by simp
  have h6: "c_str (after_call (mem demo_world) [2 \<mapsto> [NUL]])
      (tabstr \<lparr>errcode = - 1, tabstr = Ptr 2 0\<rparr>) = Inr []"
    by (simp add: demo_defs)
  show ?thesis
    using C7_empty_argument [where SlangParseLang = demo_callee and w = demo_world
        and argv = "[Ptr 0 0, Ptr 3 0, NULL]", OF demo_wf2_empty h2 h3 h4 h5 h6]
    by (simp add: demo_world_def)
qed

subsection \<open>A null payload\<close>

text \<open>
  Claim C9. \<open>main\<close> hands \<open>result.tabstr\<close> to \<open>%s\<close> without a check. In a run with
  an argument, the print is defined, and the run exits, exactly when the payload is a
  readable string; so a run that ends without a fault had a non-null payload, and a callee
  that returns a null payload takes the run into the null dereference.
\<close>

theorem C9_null_payload_is_undefined:
  assumes "2 \<le> argc" and "wf_args (mem w) argc argv"
    and "c_str (mem w) (argv ! 1) = Inr X"
    and "SlangParseLang (mem w) \<lparr>str_p = argv ! 1, str_n = word_of_nat (length X)\<rparr> = (r, fresh)"
  shows "(tabstr r = NULL \<longrightarrow> fault_of (main SlangParseLang w argc argv) = Some NullDeref) \<and>
         (exit_code (main SlangParseLang w argc argv) = Some 0 \<longleftrightarrow>
            is_string (after_call (mem w) fresh) (tabstr r)) \<and>
         (fault_of (main SlangParseLang w argc argv) = None \<longrightarrow> tabstr r \<noteq> NULL)"
proof -
  have "\<not> argc < 2" using assms(1) by simp
  then have m: "main SlangParseLang w argc argv =
     (case c_str (after_call (mem w) fresh) (tabstr r) of
        Inl e \<Rightarrow>
          Fault e (w\<lparr>mem := after_call (mem w) fresh,
                     calls := calls w @ [\<lparr>str_p = argv ! 1, str_n = word_of_nat (length X)\<rparr>]\<rparr>)
      | Inr s \<Rightarrow>
          Exit 0 (w\<lparr>mem := after_call (mem w) fresh,
                    calls := calls w @ [\<lparr>str_p = argv ! 1, str_n = word_of_nat (length X)\<rparr>],
                    out := out w @ report_line X (sint (errcode r)) @ [newline] @ s @ [newline]\<rparr>))"
    using wf_args_arg1(1) [OF assms(1,2)] assms(3,4) by (rule main_call_path)
  have n: "c_str (after_call (mem w) fresh) NULL = Inl NullDeref"
    by (simp add: c_str_def)
  show ?thesis
    unfolding m using n by (auto simp: is_string_def split: sum.splits)
qed

theorem C9_null_payload_is_undefined_witness:
  "fault_of (main null_callee demo_world 2 [Ptr 0 0, Ptr 1 0, NULL]) = Some NullDeref \<and>
   exit_code (main null_callee demo_world 2 [Ptr 0 0, Ptr 1 0, NULL]) = None"
proof -
  have h1: "(2::int) \<le> 2" by simp
  have h4: "null_callee (mem demo_world)
      \<lparr>str_p = [Ptr 0 0, Ptr 1 0, NULL] ! 1, str_n = word_of_nat (length ''en'')\<rparr> =
      (\<lparr>errcode = - 1, tabstr = NULL\<rparr>, Map.empty)"
    by (simp add: null_callee_def)
  have "fault_of (main null_callee demo_world 2 [Ptr 0 0, Ptr 1 0, NULL]) = Some NullDeref"
    using C9_null_payload_is_undefined [where SlangParseLang = null_callee and w = demo_world
        and argv = "[Ptr 0 0, Ptr 1 0, NULL]", OF h1 demo_wf2 demo_arg_en h4]
    by simp
  then show ?thesis
    by (cases "main null_callee demo_world 2 [Ptr 0 0, Ptr 1 0, NULL]") simp_all
qed

subsection \<open>Arguments after the first\<close>

text \<open>
  Claim C10. Two runs with at least one argument each, which agree on the program name,
  on the first argument and on what the callee returns (the code and the returned
  string), and start with the same output, end with the same output and the same exit
  code, or in the same fault: arguments after the first are not read.
\<close>

theorem C10_extra_arguments_not_read:
  assumes "2 \<le> argc1" and "wf_args (mem w1) argc1 argv1"
    and "2 \<le> argc2" and "wf_args (mem w2) argc2 argv2"
    and "out w1 = out w2"
    and "c_str (mem w1) (argv1 ! 0) = c_str (mem w2) (argv2 ! 0)"
    and "c_str (mem w1) (argv1 ! 1) = Inr X" and "c_str (mem w2) (argv2 ! 1) = Inr X"
    and "SlangParseLang (mem w1) \<lparr>str_p = argv1 ! 1, str_n = word_of_nat (length X)\<rparr> = (r1, fresh1)"
    and "SlangParseLang (mem w2) \<lparr>str_p = argv2 ! 1, str_n = word_of_nat (length X)\<rparr> = (r2, fresh2)"
    and "errcode r1 = errcode r2"
    and "c_str (after_call (mem w1) fresh1) (tabstr r1) = c_str (after_call (mem w2) fresh2) (tabstr r2)"
  shows "out (final (main SlangParseLang w1 argc1 argv1)) =
           out (final (main SlangParseLang w2 argc2 argv2)) \<and>
         exit_code (main SlangParseLang w1 argc1 argv1) =
           exit_code (main SlangParseLang w2 argc2 argv2) \<and>
         fault_of (main SlangParseLang w1 argc1 argv1) =
           fault_of (main SlangParseLang w2 argc2 argv2)"
proof -
  have a: "\<not> argc1 < 2" "\<not> argc2 < 2" using assms(1,3) by simp_all
  note m1 = main_call_path [where f = SlangParseLang, OF a(1) wf_args_arg1(1) [OF assms(1,2)] assms(7,9)]
  note m2 = main_call_path [where f = SlangParseLang, OF a(2) wf_args_arg1(1) [OF assms(3,4)] assms(8,10)]
  show ?thesis
    unfolding m1 m2 using assms(5,11,12) by (simp split: sum.splits)
qed

theorem C10_extra_arguments_not_read_witness:
  "out (final (main demo_callee demo_world 2 [Ptr 0 0, Ptr 1 0, NULL])) =
     out (final (main demo_callee demo_world 3 [Ptr 0 0, Ptr 1 0, Ptr 4 0, NULL])) \<and>
   exit_code (main demo_callee demo_world 2 [Ptr 0 0, Ptr 1 0, NULL]) =
     exit_code (main demo_callee demo_world 3 [Ptr 0 0, Ptr 1 0, Ptr 4 0, NULL])"
proof -
  have h1: "(2::int) \<le> 2" and h3: "(2::int) \<le> 3" by simp_all
  have h6: "c_str (mem demo_world) ([Ptr 0 0, Ptr 1 0, NULL] ! 0) =
            c_str (mem demo_world) ([Ptr 0 0, Ptr 1 0, Ptr 4 0, NULL] ! 0)" by simp
  have h8: "c_str (mem demo_world) ([Ptr 0 0, Ptr 1 0, Ptr 4 0, NULL] ! 1) = Inr ''en''"
    by (simp add: demo_defs)
  have h10: "demo_callee (mem demo_world)
     \<lparr>str_p = [Ptr 0 0, Ptr 1 0, Ptr 4 0, NULL] ! 1, str_n = word_of_nat (length ''en'')\<rparr> =
   (\<lparr>errcode = 0, tabstr = Ptr 2 0\<rparr>, [2 \<mapsto> ''OK'' @ [NUL]])"
    by (simp add: demo_defs)
  show ?thesis
    using C10_extra_arguments_not_read [where SlangParseLang = demo_callee
        and ?w1.0 = demo_world and ?w2.0 = demo_world
        and ?argv1.0 = "[Ptr 0 0, Ptr 1 0, NULL]" and ?argv2.0 = "[Ptr 0 0, Ptr 1 0, Ptr 4 0, NULL]",
        OF h1 demo_wf2 h3 demo_wf3 refl h6 demo_arg_en h8 demo_call_en h10 refl refl]
    by simp
qed

end
